theory Spec2Isabelle
  imports
    Main
    "HOL-Library.Finite_Map"
    "HOL-Library.Char_ord"
    "HOL-Library.List_Lexorder"
    "HOL-Library.Word"
begin

section \<open>gitdb: blocks, records and the model envelope\<close>

text \<open>
  A shallow embedding of the block code (\<^verbatim>\<open>block\<close> and its methods, \<^verbatim>\<open>orderMapKeys\<close>)
  and of \<^verbatim>\<open>model.go\<close> (\<^verbatim>\<open>TimeStampedModel\<close>, \<^verbatim>\<open>model\<close>, \<^verbatim>\<open>wrap\<close>).

  Conventions. A Go string is a \<^typ>\<open>string\<close>, a list of bytes; \<^verbatim>\<open>len\<close> is
  \<^const>\<open>length\<close>. A Go map with string keys is a finite map; \<^verbatim>\<open>len(m)\<close> is the number
  of its keys. A method with a pointer receiver takes the receiver and returns it
  updated. A Go \<^verbatim>\<open>error\<close> result is an \<^typ>\<open>'a option\<close>, \<^const>\<open>None\<close> for \<^verbatim>\<open>nil\<close>.
  A panic is the left summand of the result.
\<close>

subsection \<open>Records and errors\<close>

text \<open>
  Modelled from the spec: the \<^verbatim>\<open>record\<close> struct and its constructor \<^verbatim>\<open>newRecord\<close> are
  declared outside the given sources. The block code reads and writes three fields:
  \<^verbatim>\<open>Content\<close> (set by \<^verbatim>\<open>records\<close>), \<^verbatim>\<open>data\<close> (read by \<^verbatim>\<open>MarshalJSON\<close>) and \<^verbatim>\<open>key\<close>
  (set by \<^verbatim>\<open>grecords\<close>). The spec describes a record as a key with its raw payload,
  so \<^verbatim>\<open>newRecord(k, v)\<close> keeps \<open>k\<close> as the key and \<open>v\<close> as the payload \<^verbatim>\<open>data\<close>, the field
  that block serialisation writes back under \<open>k\<close>; \<^verbatim>\<open>Content\<close> keeps Go's zero value.
\<close>

record record_t =
  key :: string
  data :: string
  Content :: string

definition newRecord :: "string \<Rightarrow> string \<Rightarrow> record_t" where
  "newRecord k v = \<lparr>key = k, data = v, Content = []\<rparr>"

text \<open>
  The error values of the block code: \<^verbatim>\<open>errors.New\<close> (\<open>ErrorString\<close>), the failure of
  \<^verbatim>\<open>ioutil.ReadFile\<close> on a path (\<open>PathError\<close>), and the two error structs built by
  \<^verbatim>\<open>readBlock\<close>, each with its message and its identifying field.
\<close>

datatype error =
  ErrorString string
  | PathError string
  | BadBlockError string string
  | BadRecordError string string

subsection \<open>The block and its in-memory index\<close>

record block =
  blockName :: string
  Size :: "64 word"
  Records :: "record_t list"
  blockBadRecords :: "string list"
  recs :: "(string, record_t) fmap"
  dataset_name :: string

text \<open>
  \<^verbatim>\<open>newBlock\<close>: every other field has Go's zero value, the index is an empty map.
  \<^verbatim>\<open>newBlock\<close> is the one place where the given sources build a block, so the index
  \<^verbatim>\<open>recs\<close> of a block is always a map that can be written to.
\<close>

definition newBlock :: "string \<Rightarrow> block" where
  "newBlock ds =
     \<lparr>blockName = [], Size = 0, Records = [], blockBadRecords = [],
      recs = fmempty, dataset_name = ds\<rparr>"

definition block_add :: "block \<Rightarrow> string \<Rightarrow> string \<Rightarrow> block" where
  "block_add b k v = b\<lparr>recs := fmupd k (newRecord k v) (recs b)\<rparr>"

definition block_get :: "block \<Rightarrow> string \<Rightarrow> error + record_t" where
  "block_get b k =
     (case fmlookup (recs b) k of
        Some r \<Rightarrow> Inr r
      | None \<Rightarrow> Inl (ErrorString ''key does not exist''))"

definition block_delete :: "block \<Rightarrow> string \<Rightarrow> block \<times> error option" where
  "block_delete b k =
     (case fmlookup (recs b) k of
        Some r \<Rightarrow> (b\<lparr>recs := fmdrop k (recs b)\<rparr>, None)
      | None \<Rightarrow> (b, Some (ErrorString ''key does not exist'')))"

definition block_size :: "block \<Rightarrow> nat" where
  "block_size b = fcard (fmdom (recs b))"

subsection \<open>Time-stamped models\<close>

text \<open>
  A \<^verbatim>\<open>time.Time\<close> is read through its seconds and nanoseconds since the zero instant;
  \<^verbatim>\<open>IsZero\<close> holds when both are zero. The value of \<^verbatim>\<open>time.Now()\<close> is an argument of
  the hook.
\<close>

datatype Time = Time (sec: int) (nsec: nat)

definition IsZero :: "Time \<Rightarrow> bool" where
  "IsZero t = (sec t = 0 \<and> nsec t = 0)"

record TimeStampedModel =
  CreatedAt :: Time
  UpdatedAt :: Time

definition TimeStampedModel_BeforeInsert ::
  "Time \<Rightarrow> TimeStampedModel \<Rightarrow> TimeStampedModel \<times> error option" where
  "TimeStampedModel_BeforeInsert stampTime m =
     (let m1 = (if IsZero (CreatedAt m) then m\<lparr>CreatedAt := stampTime\<rparr> else m);
          m2 = m1\<lparr>UpdatedAt := stampTime\<rparr>
      in (m2, None))"

subsection \<open>The Model contract and the envelope\<close>

text \<open>
  Modelled from the spec: the \<^verbatim>\<open>Schema\<close> struct is declared outside the given sources;
  the envelope reads its field \<^verbatim>\<open>indexes\<close>, a map from index name to indexed value
  (\<^const>\<open>None\<close> is the \<^verbatim>\<open>nil\<close> map). Other fields stay in the record's extension.
\<close>

record 'v Schema =
  indexes :: "(string, 'v) fmap option"

text \<open>
  The \<^verbatim>\<open>Model\<close> interface. A value of the interface is a domain object of some type
  \<open>'m\<close> behind a pointer, with its six methods. The methods that return an \<^verbatim>\<open>error\<close>
  may change the object and return it updated.
\<close>

record ('m, 'v) Model =
  GetSchema :: "'m \<Rightarrow> 'v Schema"
  Validate :: "'m \<Rightarrow> 'm \<times> error option"
  IsLockable :: "'m \<Rightarrow> bool"
  GetLockFileNames :: "'m \<Rightarrow> string list"
  ShouldEncrypt :: "'m \<Rightarrow> bool"
  BeforeInsert :: "'m \<Rightarrow> 'm \<times> error option"

record ('m, 'v) model =
  Version :: string
  Indexes :: "(string, 'v) fmap option"
  Data :: 'm

text \<open>
  \<^verbatim>\<open>wrap\<close>: the constant \<^verbatim>\<open>RecVersion\<close> is declared outside the given sources and is
  an argument; \<^verbatim>\<open>Indexes\<close> is not set and keeps the \<^verbatim>\<open>nil\<close> map.
\<close>

definition wrap :: "string \<Rightarrow> 'm \<Rightarrow> ('m, 'v) model" where
  "wrap RecVersion m = \<lparr>Version = RecVersion, Indexes = None, Data = m\<rparr>"

definition model_GetSchema :: "('m, 'v) Model \<Rightarrow> ('m, 'v) model \<Rightarrow> 'v Schema" where
  "model_GetSchema M e = GetSchema M (Data e)"

definition model_Validate ::
  "('m, 'v) Model \<Rightarrow> ('m, 'v) model \<Rightarrow> ('m, 'v) model \<times> error option" where
  "model_Validate M e = (case Validate M (Data e) of (d, err) \<Rightarrow> (e\<lparr>Data := d\<rparr>, err))"

definition model_IsLockable :: "('m, 'v) Model \<Rightarrow> ('m, 'v) model \<Rightarrow> bool" where
  "model_IsLockable M e = IsLockable M (Data e)"

definition model_ShouldEncrypt :: "('m, 'v) Model \<Rightarrow> ('m, 'v) model \<Rightarrow> bool" where
  "model_ShouldEncrypt M e = ShouldEncrypt M (Data e)"

definition model_GetLockFileNames :: "('m, 'v) Model \<Rightarrow> ('m, 'v) model \<Rightarrow> string list" where
  "model_GetLockFileNames M e = GetLockFileNames M (Data e)"

text \<open>
  \<^verbatim>\<open>model.BeforeInsert\<close>: the hook of the wrapped object runs first; then \<^verbatim>\<open>Indexes\<close> is
  assigned from the schema of the object as the hook left it; the hook's error is
  returned afterwards, so the assignment happens whether or not the hook failed.
\<close>

definition model_BeforeInsert ::
  "('m, 'v) Model \<Rightarrow> ('m, 'v) model \<Rightarrow> ('m, 'v) model \<times> error option" where
  "model_BeforeInsert M e =
     (case BeforeInsert M (Data e) of
        (d, err) \<Rightarrow>
          (let e1 = e\<lparr>Data := d\<rparr>;
               e2 = e1\<lparr>Indexes := indexes (model_GetSchema M e1)\<rparr>
           in (e2, err)))"

text \<open>
  A domain object for examples: a time-stamped model whose schema indexes its creation
  time under the name \<open>CreatedAt\<close>.
\<close>

definition stamped_Model :: "(TimeStampedModel, Time) Model" where
  "stamped_Model =
     \<lparr>GetSchema = (\<lambda>m. \<lparr>indexes = Some (fmupd ''CreatedAt'' (CreatedAt m) fmempty)\<rparr>),
      Validate = (\<lambda>m. (m, None)),
      IsLockable = (\<lambda>m. False),
      GetLockFileNames = (\<lambda>m. []),
      ShouldEncrypt = (\<lambda>m. False),
      BeforeInsert = TimeStampedModel_BeforeInsert (Time 63000000000 0)\<rparr>"

subsection \<open>Decoded JSON and the library calls\<close>

text \<open>
  A decoded JSON document. An object keeps its members in document order, duplicates
  included; the numbers are those with an integer value.
\<close>

datatype json =
  JNull
  | JBool bool
  | JNumber int
  | JString string
  | JArray "json list"
  | JObject "(string \<times> json) list"

text \<open>
  The calls that leave the repository's own code are arguments of the model:
  \<^verbatim>\<open>filepath.Join\<close>; the syntax check and scan of \<^verbatim>\<open>encoding/json\<close> (\<open>json_parse\<close>: the
  document of a text, or on the left the message of the error for a text that the
  package rejects); \<^verbatim>\<open>json.Indent\<close> with a tab as indent
  (the indented text, or the error's message); and the package's
  \<^verbatim>\<open>decrypt(key, str)\<close>, the crypto collaborator, declared outside the given sources.
\<close>

record golib =
  filepath_Join :: "string list \<Rightarrow> string"
  json_parse :: "string \<Rightarrow> string + json"
  json_Indent :: "string \<Rightarrow> string + string"
  decrypt :: "string \<Rightarrow> string \<Rightarrow> string"

text \<open>A Go \<^verbatim>\<open>map[string]interface{}\<close> variable: \<^const>\<open>None\<close> is the \<^verbatim>\<open>nil\<close> map.\<close>

type_synonym gomap = "(string, json) fmap option"

definition map_index :: "gomap \<Rightarrow> string \<Rightarrow> json option" where
  "map_index m k = (case m of None \<Rightarrow> None | Some f \<Rightarrow> fmlookup f k)"

definition object_store :: "(string \<times> 'a) list \<Rightarrow> (string, 'a) fmap \<Rightarrow> (string, 'a) fmap" where
  "object_store kvs f = fold (\<lambda>(k, v). fmupd k v) kvs f"

text \<open>
  \<^verbatim>\<open>json.Unmarshal\<close> of a document into a map variable, as \<^verbatim>\<open>encoding/json\<close> documents it:
  \<^verbatim>\<open>null\<close> sets the variable to \<^verbatim>\<open>nil\<close>; an object reuses the variable's map (a new one
  when it is \<^verbatim>\<open>nil\<close>), keeps its entries and stores the members in order; any other
  value leaves the variable as it is and is a type error (\<^const>\<open>True\<close>).
\<close>

fun decode_map :: "json \<Rightarrow> gomap \<Rightarrow> gomap \<times> bool" where
  "decode_map JNull m = (None, False)"
| "decode_map (JObject kvs) m =
     (Some (object_store kvs (case m of None \<Rightarrow> fmempty | Some f \<Rightarrow> f)), False)"
| "decode_map v m = (m, True)"

fun json_kind :: "json \<Rightarrow> string" where
  "json_kind JNull = ''null''"
| "json_kind (JBool b) = ''bool''"
| "json_kind (JNumber n) = ''number''"
| "json_kind (JString s) = ''string''"
| "json_kind (JArray xs) = ''array''"
| "json_kind (JObject kvs) = ''object''"

text \<open>
  \<^verbatim>\<open>json.Unmarshal(data, &m)\<close> for a map variable \<open>m\<close>: a syntax error leaves \<open>m\<close>
  untouched; the result is the variable and the error's message, if any.
\<close>

definition json_Unmarshal_map :: "golib \<Rightarrow> string \<Rightarrow> gomap \<Rightarrow> gomap \<times> string option" where
  "json_Unmarshal_map L txt m =
     (case json_parse L txt of
        Inl e \<Rightarrow> (m, Some e)
      | Inr v \<Rightarrow>
          (case decode_map v m of
             (m1, mismatch) \<Rightarrow>
               (m1, if mismatch
                    then Some (''json: cannot unmarshal '' @ json_kind v @
                               '' into Go value of type map[string]interface {}'')
                    else None)))"

text \<open>\<^verbatim>\<open>orderMapKeys\<close>: the keys of the map, sorted as byte strings.\<close>

definition orderMapKeys :: "gomap \<Rightarrow> string list" where
  "orderMapKeys m = (case m of None \<Rightarrow> [] | Some f \<Rightarrow> sorted_list_of_fset (fmdom f))"

subsection \<open>The dataset, the file system and reading a block\<close>

text \<open>
  Modelled from the spec: the \<^verbatim>\<open>dataset\<close> struct is declared outside the given sources.
  The block code uses its root path, its name, its crypto key and the two diagnostic
  lists. The block's pointer \<^verbatim>\<open>Dataset\<close> is followed by passing the dataset to every
  method that uses it and returning it updated.
\<close>

record dataset =
  DbPath :: string
  Name :: string
  cryptoKey :: string
  BadBlocks :: "string list"
  BadRecords :: "string list"

text \<open>
  The file system: the bytes of each readable file, and the trace of the paths given
  to \<^verbatim>\<open>ioutil.ReadFile\<close>, oldest first. The calls of \<^verbatim>\<open>log\<close> and \<^verbatim>\<open>logError\<close> write to
  the package's logger and change nothing else; the model leaves them out.
\<close>

record world =
  files :: "string \<rightharpoonup> string"
  reads :: "string list"

definition ReadFile :: "world \<Rightarrow> string \<Rightarrow> world \<times> (error + string)" where
  "ReadFile w p =
     (w\<lparr>reads := reads w @ [p]\<rparr>,
      case files w p of None \<Rightarrow> Inl (PathError p) | Some bytes \<Rightarrow> Inr bytes)"

definition block_decrypt :: "golib \<Rightarrow> dataset \<Rightarrow> string \<Rightarrow> string" where
  "block_decrypt L d str =
     (let dec = decrypt L (cryptoKey d) str
      in if length dec > 0 then dec else str)"

text \<open>
  The type assertion \<^verbatim>\<open>dataBlock[k].(string)\<close> panics on a value that is not a string;
  the panic carries the value (\<^const>\<open>None\<close> and \<^const>\<open>JNull\<close> are the \<^verbatim>\<open>nil\<close> interface).
\<close>

datatype panic = InterfaceConversion "json option"

fun assert_string :: "json option \<Rightarrow> panic + string" where
  "assert_string (Some (JString s)) = Inr s"
| "assert_string v = Inl (InterfaceConversion v)"

definition blockFile :: "golib \<Rightarrow> dataset \<Rightarrow> block \<Rightarrow> string" where
  "blockFile L d b = filepath_Join L [DbPath d, Name d, blockName b @ ''.json'']"

text \<open>
  The loop of \<^verbatim>\<open>readBlock\<close> over the sorted keys. \<open>record\<close> is the map variable that
  every entry is decoded into; \<open>result\<close> grows by one formatted text per good entry.
\<close>

fun readBlock_loop ::
  "golib \<Rightarrow> dataset \<Rightarrow> gomap \<Rightarrow> string list \<Rightarrow> gomap \<Rightarrow> string list
     \<Rightarrow> panic + (string list \<times> error option)" where
  "readBlock_loop L d dataBlock [] record result = Inr (result, None)"
| "readBlock_loop L d dataBlock (k # ks) record result =
     (case assert_string (map_index dataBlock k) of
        Inl p \<Rightarrow> Inl p
      | Inr str \<Rightarrow>
          (let recordStr = block_decrypt L d str in
           case json_Unmarshal_map L recordStr record of
             (record1, Some jsonErr) \<Rightarrow>
               Inr (result, Some (BadRecordError (jsonErr @ '' - '' @ k) k))
           | (record1, None) \<Rightarrow>
               (case json_Indent L recordStr of
                  Inl jsonErr \<Rightarrow> Inr (result, Some (BadRecordError (jsonErr @ '' - '' @ k) k))
                | Inr buf \<Rightarrow> readBlock_loop L d dataBlock ks record1 (result @ [buf]))))"

definition readBlock ::
  "golib \<Rightarrow> world \<Rightarrow> dataset \<Rightarrow> block
     \<Rightarrow> world \<times> (panic + (string list \<times> error option))" where
  "readBlock L w d b =
     (case ReadFile w (blockFile L d b) of
        (w1, Inl err) \<Rightarrow> (w1, Inr ([], Some err))
      | (w1, Inr bytes) \<Rightarrow>
          (case json_Unmarshal_map L bytes None of
             (dataBlock, Some e) \<Rightarrow>
               (w1, Inr ([], Some (BadBlockError (e @ '' - '' @ blockFile L d b)
                                                 (blockFile L d b))))
           | (dataBlock, None) \<Rightarrow>
               (w1, readBlock_loop L d dataBlock (orderMapKeys dataBlock) None [])))"

text \<open>
  \<^verbatim>\<open>records\<close>: both diagnostic lists of the dataset are emptied before the file is
  read. On an error the matching list gets one entry and no record is returned. The
  dataset is returned in the state the call left it, also when the call panicked.
\<close>

definition block_records ::
  "golib \<Rightarrow> world \<Rightarrow> dataset \<Rightarrow> block \<Rightarrow> world \<times> dataset \<times> (panic + record_t list)" where
  "block_records L w d b =
     (let d1 = d\<lparr>BadBlocks := [], BadRecords := []\<rparr> in
      case readBlock L w d1 b of
        (w1, Inl p) \<Rightarrow> (w1, d1, Inl p)
      | (w1, Inr (rs, Some err)) \<Rightarrow>
          (case err of
             BadBlockError msg file \<Rightarrow> (w1, d1\<lparr>BadBlocks := BadBlocks d1 @ [file]\<rparr>, Inr [])
           | BadRecordError msg recordID \<Rightarrow>
               (w1, d1\<lparr>BadRecords := BadRecords d1 @ [recordID]\<rparr>, Inr [])
           | _ \<Rightarrow> (w1, d1, Inr []))
      | (w1, Inr (rs, None)) \<Rightarrow>
          (w1, d1, Inr (map (\<lambda>rec. \<lparr>key = [], data = [], Content = rec\<rparr>) rs)))"

text \<open>\<^verbatim>\<open>loadRecords\<close>: the file is read only while the block holds no record.\<close>

definition loadRecords ::
  "golib \<Rightarrow> world \<Rightarrow> dataset \<Rightarrow> block \<Rightarrow> world \<times> dataset \<times> (panic + block)" where
  "loadRecords L w d b =
     (if length (Records b) = 0
      then (case block_records L w d b of
              (w1, d1, Inl p) \<Rightarrow> (w1, d1, Inl p)
            | (w1, d1, Inr rs) \<Rightarrow> (w1, d1, Inr (b\<lparr>Records := rs\<rparr>)))
      else (w, d, Inr b))"

definition RecordCount ::
  "golib \<Rightarrow> world \<Rightarrow> dataset \<Rightarrow> block \<Rightarrow> world \<times> dataset \<times> (panic + block \<times> nat)" where
  "RecordCount L w d b =
     (case loadRecords L w d b of
        (w1, d1, Inl p) \<Rightarrow> (w1, d1, Inl p)
      | (w1, d1, Inr b1) \<Rightarrow> (w1, d1, Inr (b1, length (Records b1))))"

subsection \<open>The table of a block\<close>

text \<open>
  \<^verbatim>\<open>fmt.Sprintf("%v", x)\<close> for a decoded value \<open>x\<close>. A number is a \<^verbatim>\<open>float64\<close> and prints
  in the shortest \<^verbatim>\<open>%g\<close> form: plain digits below \<open>10\<^sup>6\<close>, mantissa and exponent from
  there on (exact for integers that a \<^verbatim>\<open>float64\<close> holds exactly). A slice prints its
  elements between brackets, a map its entries by sorted key, the \<^verbatim>\<open>nil\<close> interface as
  \<^verbatim>\<open><nil>\<close>.
\<close>

definition digit_char :: "nat \<Rightarrow> char" where
  "digit_char n = char_of (48 + n)"

fun nat_digits :: "nat \<Rightarrow> string" where
  "nat_digits n = (if n < 10 then [digit_char n] else nat_digits (n div 10) @ [digit_char (n mod 10)])"

declare nat_digits.simps [simp del]

definition strip_zeros :: "string \<Rightarrow> string" where
  "strip_zeros ds = rev (dropWhile (\<lambda>c. c = CHR ''0'') (rev ds))"

definition fmt_exp :: "string \<Rightarrow> string" where
  "fmt_exp ds =
     (let e = length ds - 1; m = strip_zeros ds
      in take 1 m @ (if length m > 1 then ''.'' @ drop 1 m else []) @ ''e+'' @
         (if e < 10 then ''0'' else []) @ nat_digits e)"

definition fmt_float :: "int \<Rightarrow> string" where
  "fmt_float n =
     (let ds = nat_digits (nat \<bar>n\<bar>)
      in (if n < 0 then ''-'' else []) @ (if \<bar>n\<bar> < 1000000 then ds else fmt_exp ds))"

fun join_space :: "string list \<Rightarrow> string" where
  "join_space [] = []"
| "join_space [x] = x"
| "join_space (x # y # ys) = x @ '' '' @ join_space (y # ys)"

definition fmt_entries :: "(string \<times> string) list \<Rightarrow> string" where
  "fmt_entries kvs =
     (let f = object_store kvs fmempty
      in join_space
           (map (\<lambda>k. k @ '':'' @ (case fmlookup f k of None \<Rightarrow> [] | Some s \<Rightarrow> s))
                (sorted_list_of_fset (fmdom f))))"

fun fmt_v :: "json \<Rightarrow> string" where
  "fmt_v JNull = ''<nil>''"
| "fmt_v (JBool b) = (if b then ''true'' else ''false'')"
| "fmt_v (JNumber n) = fmt_float n"
| "fmt_v (JString s) = s"
| "fmt_v (JArray xs) = ''['' @ join_space (map fmt_v xs) @ '']''"
| "fmt_v (JObject kvs) = ''map['' @ fmt_entries (map (\<lambda>(k, v). (k, fmt_v v)) kvs) @ '']''"

definition Sprintf_v :: "json option \<Rightarrow> string" where
  "Sprintf_v x = (case x of None \<Rightarrow> ''<nil>'' | Some v \<Rightarrow> fmt_v v)"

text \<open>
  The struct \<^verbatim>\<open>rawV2\<close> of \<^verbatim>\<open>table\<close> and \<^verbatim>\<open>json.Unmarshal\<close> into it. A member of the
  document goes to the field of its name, upper and lower case taken as equal; each
  field is a map variable and is decoded as one; other members are skipped. A syntax
  error, \<^verbatim>\<open>null\<close> or a document that is not an object leave the struct as it is.
  \<^verbatim>\<open>table\<close> only logs the error of the call, so the model returns the struct alone.
\<close>

record rawV2 =
  rawV2_Indexes :: gomap
  rawV2_Data :: gomap

definition to_lower :: "char \<Rightarrow> char" where
  "to_lower c =
     (if CHR ''A'' \<le> c \<and> c \<le> CHR ''Z'' then char_of (of_char c + (32::nat)) else c)"

definition equalFold :: "string \<Rightarrow> string \<Rightarrow> bool" where
  "equalFold s t = (map to_lower s = map to_lower t)"

fun store_member :: "string \<times> json \<Rightarrow> rawV2 \<Rightarrow> rawV2" where
  "store_member (k, v) raw =
     (if equalFold k ''Indexes'' then raw\<lparr>rawV2_Indexes := fst (decode_map v (rawV2_Indexes raw))\<rparr>
      else if equalFold k ''Data'' then raw\<lparr>rawV2_Data := fst (decode_map v (rawV2_Data raw))\<rparr>
      else raw)"

definition json_Unmarshal_rawV2 :: "golib \<Rightarrow> string \<Rightarrow> rawV2 \<Rightarrow> rawV2" where
  "json_Unmarshal_rawV2 L txt raw =
     (case json_parse L txt of
        Inr (JObject kvs) \<Rightarrow> fold store_member kvs raw
      | _ \<Rightarrow> raw)"

text \<open>
  \<^verbatim>\<open>json.Marshal(rawV2.Data)\<close> followed by \<^verbatim>\<open>json.Unmarshal\<close> of these bytes into the map
  variable \<^verbatim>\<open>jsonMap\<close>: neither call fails on decoded values; a \<^verbatim>\<open>nil\<close> map is written
  as \<^verbatim>\<open>null\<close> and sets \<^verbatim>\<open>jsonMap\<close> to \<^verbatim>\<open>nil\<close>, any other map is written as an object whose
  members are stored into \<^verbatim>\<open>jsonMap\<close> over the entries it already has.
\<close>

definition remarshal :: "gomap \<Rightarrow> gomap \<Rightarrow> gomap" where
  "remarshal dat jsonMap =
     (case dat of
        None \<Rightarrow> None
      | Some f \<Rightarrow> Some ((case jsonMap of None \<Rightarrow> fmempty | Some g \<Rightarrow> g) ++\<^sub>f f))"

record table =
  Headers :: "string list"
  Rows :: "string list list"

definition cell :: "gomap \<Rightarrow> string \<Rightarrow> string" where
  "cell jsonMap k =
     (let val = Sprintf_v (map_index jsonMap k)
      in if length val > 40 then take 40 val else val)"

text \<open>
  The loop of \<^verbatim>\<open>table\<close>. \<^verbatim>\<open>rawV2\<close> and \<^verbatim>\<open>jsonMap\<close> are declared before the loop and are
  the same variables in every round.
\<close>

fun table_loop :: "golib \<Rightarrow> record_t list \<Rightarrow> nat \<Rightarrow> rawV2 \<Rightarrow> gomap \<Rightarrow> table \<Rightarrow> table" where
  "table_loop L [] i raw jsonMap t = t"
| "table_loop L (r # rs) i raw jsonMap t =
     (let raw1 = json_Unmarshal_rawV2 L (Content r) raw;
          jsonMap1 = remarshal (rawV2_Data raw1) jsonMap;
          t1 = (if i = 0 then t\<lparr>Headers := orderMapKeys jsonMap1\<rparr> else t);
          row = map (cell jsonMap1) (Headers t1)
      in table_loop L rs (i + 1) raw1 jsonMap1 (t1\<lparr>Rows := Rows t1 @ [row]\<rparr>))"

definition block_table ::
  "golib \<Rightarrow> world \<Rightarrow> dataset \<Rightarrow> block \<Rightarrow> world \<times> dataset \<times> (panic + block \<times> table)" where
  "block_table L w d b =
     (case loadRecords L w d b of
        (w1, d1, Inl p) \<Rightarrow> (w1, d1, Inl p)
      | (w1, d1, Inr b1) \<Rightarrow>
          (w1, d1,
           Inr (b1, table_loop L (Records b1) 0
                      \<lparr>rawV2_Indexes = None, rawV2_Data = None\<rparr> None
                      \<lparr>Headers = [], Rows = []\<rparr>)))"

subsection \<open>Reading one entry, seen from outside the loop\<close>

text \<open>
  What one round of the loop of \<^verbatim>\<open>readBlock\<close> does with the string of an entry: the
  message of the error that makes the entry a bad record (from \<^verbatim>\<open>json.Unmarshal\<close> into
  the record map, or else from \<^verbatim>\<open>json.Indent\<close>), and the formatted text of a good one.
\<close>

definition entry_error :: "golib \<Rightarrow> dataset \<Rightarrow> string \<Rightarrow> string option" where
  "entry_error L d str =
     (let recordStr = block_decrypt L d str in
      case snd (json_Unmarshal_map L recordStr None) of
        Some e \<Rightarrow> Some e
      | None \<Rightarrow> (case json_Indent L recordStr of Inl e \<Rightarrow> Some e | Inr buf \<Rightarrow> None))"

definition entry_formatted :: "golib \<Rightarrow> dataset \<Rightarrow> string \<Rightarrow> string" where
  "entry_formatted L d str =
     (case json_Indent L (block_decrypt L d str) of Inl e \<Rightarrow> [] | Inr buf \<Rightarrow> buf)"

text \<open>
  For comparison, a bad entry in the words of the spec: the decrypted text does not
  parse as JSON, or its re-indentation fails.
\<close>

definition fails_as_json :: "golib \<Rightarrow> dataset \<Rightarrow> string \<Rightarrow> bool" where
  "fails_as_json L d str =
     (let recordStr = block_decrypt L d str
      in isl (json_parse L recordStr) \<or> isl (json_Indent L recordStr))"

text \<open>
  The code's error and formatted text by key, for the entries of a decoded block file
  that are strings.
\<close>

definition bad_entry :: "golib \<Rightarrow> dataset \<Rightarrow> gomap \<Rightarrow> string \<Rightarrow> bool" where
  "bad_entry L d dataBlock k =
     (case assert_string (map_index dataBlock k) of
        Inl p \<Rightarrow> False
      | Inr str \<Rightarrow> entry_error L d str \<noteq> None)"

definition entry_message :: "golib \<Rightarrow> dataset \<Rightarrow> gomap \<Rightarrow> string \<Rightarrow> string" where
  "entry_message L d dataBlock k =
     (case assert_string (map_index dataBlock k) of
        Inl p \<Rightarrow> []
      | Inr str \<Rightarrow> (case entry_error L d str of None \<Rightarrow> [] | Some e \<Rightarrow> e))"

definition formatted_at :: "golib \<Rightarrow> dataset \<Rightarrow> gomap \<Rightarrow> string \<Rightarrow> string" where
  "formatted_at L d dataBlock k =
     (case assert_string (map_index dataBlock k) of
        Inl p \<Rightarrow> []
      | Inr str \<Rightarrow> entry_formatted L d str)"

text \<open>A decoded block file is structurally valid when every value in it is a string.\<close>

definition all_strings :: "gomap \<Rightarrow> bool" where
  "all_strings dataBlock =
     list_all (\<lambda>k. case assert_string (map_index dataBlock k) of Inl p \<Rightarrow> False | Inr s \<Rightarrow> True)
       (orderMapKeys dataBlock)"

subsection \<open>A dataset on disk, for examples\<close>

text \<open>
  The decoder of the examples knows the documents of the texts below and rejects every
  other text. Paths are joined with a slash, \<^verbatim>\<open>json.Indent\<close> returns its input, and
  \<^verbatim>\<open>decrypt\<close> knows one ciphertext, \<open>enc\<close>, of the plaintext \<open>{}\<close>.
\<close>

definition example_documents :: "(string \<times> json) list" where
  \<open>example_documents =
     [(''{}'', JObject []),
      (''5'', JNumber 5),
      (''{"a":1}'', JObject [(''a'', JNumber 1)]),
      (''{"a":"5","b":"not valid json"}'',
         JObject [(''a'', JString ''5''), (''b'', JString ''not valid json'')]),
      (''{"a":"enc","b":"not valid json"}'',
         JObject [(''a'', JString ''enc''), (''b'', JString ''not valid json'')]),
      (''{"Version":"v2","Indexes":{},"Data":{"x":1,"y":2}}'',
         JObject [(''Version'', JString ''v2''), (''Indexes'', JObject []),
                  (''Data'', JObject [(''x'', JNumber 1), (''y'', JNumber 2)])]),
      (''{"Version":"v2","Indexes":{},"Data":{"x":3}}'',
         JObject [(''Version'', JString ''v2''), (''Indexes'', JObject []),
                  (''Data'', JObject [(''x'', JNumber 3)])]),
      (''{"Version":"v2","Indexes":{},"Data":{"y":4,"x":5}}'',
         JObject [(''Version'', JString ''v2''), (''Indexes'', JObject []),
                  (''Data'', JObject [(''y'', JNumber 4), (''x'', JNumber 5)])])]\<close>

definition example_parse :: "string \<Rightarrow> string + json" where
  "example_parse txt =
     (case map_of example_documents txt of
        None \<Rightarrow> Inl ''invalid character''
      | Some v \<Rightarrow> Inr v)"

definition example_lib :: golib where
  "example_lib =
     \<lparr>filepath_Join = (\<lambda>ps. case ps of [a, b, c] \<Rightarrow> a @ ''/'' @ b @ ''/'' @ c | _ \<Rightarrow> concat ps),
      json_parse = example_parse,
      json_Indent = Inr,
      decrypt = (\<lambda>k s. if s = ''enc'' then ''{}'' else [])\<rparr>"

definition example_dataset :: dataset where
  "example_dataset =
     \<lparr>DbPath = ''db'', Name = ''bookings'', cryptoKey = ''secret'',
      BadBlocks = [''stale.json''], BadRecords = [''stale'']\<rparr>"

definition example_world :: world where
  \<open>example_world =
     \<lparr>files = map_of
        [(''db/bookings/empty.json'', ''{}''),
         (''db/bookings/broken.json'', ''not valid json''),
         (''db/bookings/numbers.json'', ''{"a":1}''),
         (''db/bookings/scalar.json'', ''{"a":"5","b":"not valid json"}''),
         (''db/bookings/mixed.json'', ''{"a":"enc","b":"not valid json"}'')],
      reads = []\<rparr>\<close>

definition example_block :: "string \<Rightarrow> block" where
  "example_block n = (newBlock ''bookings'')\<lparr>blockName := n\<rparr>"

definition mixed_map :: gomap where
  "mixed_map =
     Some (fmupd ''b'' (JString ''not valid json'') (fmupd ''a'' (JString ''enc'') fmempty))"

definition scalar_map :: gomap where
  "scalar_map =
     Some (fmupd ''b'' (JString ''not valid json'') (fmupd ''a'' (JString ''5'') fmempty))"

text \<open>A block that holds three hydrated records, as \<^verbatim>\<open>records\<close> builds them.\<close>

definition table_block :: block where
  \<open>table_block =
     (example_block ''table'')
       \<lparr>Records :=
          [\<lparr>key = [], data = [], Content = ''{"Version":"v2","Indexes":{},"Data":{"x":1,"y":2}}''\<rparr>,
           \<lparr>key = [], data = [], Content = ''{"Version":"v2","Indexes":{},"Data":{"x":3}}''\<rparr>,
           \<lparr>key = [], data = [], Content = ''{"Version":"v2","Indexes":{},"Data":{"y":4,"x":5}}''\<rparr>]\<rparr>\<close>

section \<open>Properties\<close>

subsection \<open>The in-memory index\<close>

lemma block_delete_add:
  "block_delete (block_add b k v) k = (b\<lparr>recs := fmdrop k (recs b)\<rparr>, None)"
  by (simp add: block_delete_def block_add_def fmdrop_fmupd_same)

lemma size_add_delete_general:
  "block_size (fst (block_delete (block_add b k v) k)) =
     block_size b - (if fmlookup (recs b) k = None then 0 else 1)"
proof (cases "fmlookup (recs b) k")
  case None
  then show ?thesis
    by (simp add: block_delete_add block_size_def fmdrop_idle fmdom_notI)
next
  case (Some r)
  then have "k |\<in>| fmdom (recs b)" by (rule fmdomI)
  then have "Suc (fcard (fmdom (recs b) |-| {|k|})) = fcard (fmdom (recs b))"
    by (rule fcard_Suc_fminus1)
  with Some show ?thesis
    by (simp add: block_delete_add block_size_def)
qed

text \<open>
  C1. For every block, key \<open>k\<close> and value \<open>v\<close>: \<^verbatim>\<open>get(k)\<close> after \<^verbatim>\<open>add(k, v)\<close> succeeds, and
  the record it returns is the one \<^verbatim>\<open>newRecord(k, v)\<close> built, whose payload is \<open>v\<close> and
  whose key is \<open>k\<close>.
\<close>

theorem add_get_roundtrip:
  "block_get (block_add b k v) k = Inr (newRecord k v) \<and>
   data (newRecord k v) = v \<and> key (newRecord k v) = k"
  by (simp add: block_get_def block_add_def newRecord_def)

text \<open>
  C2, as stated, fails when the key is already in the block: \<^verbatim>\<open>add\<close> overwrites the
  entry and leaves the size at 1, \<^verbatim>\<open>delete\<close> then removes it and the size is 0.
\<close>

theorem add_delete_size_counterexample:
  "block_size (fst (block_delete
      (block_add (block_add (newBlock ''d'') ''k'' ''v'') ''k'' ''w'') ''k''))
     \<noteq> block_size (block_add (newBlock ''d'') ''k'' ''v'')"
  by (simp add: block_size_def block_delete_def block_add_def newBlock_def
      fcard_fempty fcard_finsert_if)

text \<open>
  C2, amended. For every block and every key \<open>k\<close> that the block does not hold:
  \<^verbatim>\<open>delete(k)\<close> after \<^verbatim>\<open>add(k, v)\<close> succeeds and \<^verbatim>\<open>size()\<close> is back at its value before
  the \<^verbatim>\<open>add\<close>.
\<close>

theorem add_delete_size:
  "fmlookup (recs b) k = None \<Longrightarrow>
     block_size (fst (block_delete (block_add b k v) k)) = block_size b \<and>
     snd (block_delete (block_add b k v) k) = None"
  by (simp add: block_delete_add block_size_def fmdrop_idle fmdom_notI)

theorem add_delete_size_witness:
  "fmlookup (recs (newBlock ''d'')) ''k'' = None \<and>
   block_size (fst (block_delete (block_add (newBlock ''d'') ''k'' ''v'') ''k''))
     = block_size (newBlock ''d'') \<and>
   block_size (block_add (newBlock ''d'') ''k'' ''v'') = 1"
  using add_delete_size [of "newBlock ''d''" "''k''" "''v''"]
  by (simp add: newBlock_def block_size_def block_add_def fcard_fempty fcard_finsert_if)

subsection \<open>Decryption of an entry\<close>

text \<open>
  C7. For every stored string \<open>s\<close>, \<^verbatim>\<open>block.decrypt\<close> returns what the collaborator's
  \<^verbatim>\<open>decrypt\<close> returned when that is not empty, and \<open>s\<close> itself when it is empty. The
  result is a plain string: there is no error to return.
\<close>

theorem block_decrypt_best_effort:
  "(decrypt L (cryptoKey d) s \<noteq> [] \<longrightarrow> block_decrypt L d s = decrypt L (cryptoKey d) s) \<and>
   (decrypt L (cryptoKey d) s = [] \<longrightarrow> block_decrypt L d s = s)"
  by (simp add: block_decrypt_def Let_def)

theorem block_decrypt_best_effort_witness:
  "block_decrypt example_lib example_dataset ''enc'' = ''{}'' \<and>
   block_decrypt example_lib example_dataset ''plain'' = ''plain''"
  using block_decrypt_best_effort [of example_lib example_dataset "''enc''"]
    block_decrypt_best_effort [of example_lib example_dataset "''plain''"]
  by (simp add: example_lib_def)

subsection \<open>The envelope and the time stamps\<close>

text \<open>
  C8. For every domain model \<open>m\<close>: after \<^verbatim>\<open>wrap(m)\<close> and the envelope's \<^verbatim>\<open>BeforeInsert\<close>,
  the envelope's \<^verbatim>\<open>Indexes\<close> are the indexes of the schema of \<open>m\<close> as its own hook left
  it, the envelope holds that object, and the hook's error is the envelope's.
\<close>

theorem envelope_indexes_after_hook:
  "Indexes (fst (model_BeforeInsert M (wrap V m)))
     = indexes (GetSchema M (fst (BeforeInsert M m))) \<and>
   Data (fst (model_BeforeInsert M (wrap V m))) = fst (BeforeInsert M m) \<and>
   snd (model_BeforeInsert M (wrap V m)) = snd (BeforeInsert M m)"
  by (simp add: model_BeforeInsert_def wrap_def model_GetSchema_def Let_def
      split: prod.splits)

text \<open>
  On the example model, whose hook stamps the creation time that the schema indexes:
  the envelope holds the stamp, not the zero time the object had when it was wrapped.
\<close>

theorem envelope_indexes_after_hook_witness:
  "Indexes (fst (model_BeforeInsert stamped_Model
       (wrap ''v2'' \<lparr>CreatedAt = Time 0 0, UpdatedAt = Time 0 0\<rparr>)))
     = Some (fmupd ''CreatedAt'' (Time 63000000000 0) fmempty)"
  using envelope_indexes_after_hook [of stamped_Model "''v2''"
      "\<lparr>CreatedAt = Time 0 0, UpdatedAt = Time 0 0\<rparr>"]
  by (simp add: stamped_Model_def TimeStampedModel_BeforeInsert_def IsZero_def)

text \<open>
  C10. \<^verbatim>\<open>TimeStampedModel.BeforeInsert\<close> returns no error and sets \<^verbatim>\<open>UpdatedAt\<close> to the
  stamp time; \<^verbatim>\<open>CreatedAt\<close> gets the stamp time when it was the zero time, and only
  then. So a first call, on a zero \<^verbatim>\<open>CreatedAt\<close>, leaves both fields equal, and a later
  call (the first stamp was not the zero time) keeps \<^verbatim>\<open>CreatedAt\<close> and refreshes
  \<^verbatim>\<open>UpdatedAt\<close>.
\<close>

theorem TimeStampedModel_BeforeInsert_stamps:
  "snd (TimeStampedModel_BeforeInsert now m) = None \<and>
   UpdatedAt (fst (TimeStampedModel_BeforeInsert now m)) = now \<and>
   (IsZero (CreatedAt m) \<longrightarrow>
      CreatedAt (fst (TimeStampedModel_BeforeInsert now m))
        = UpdatedAt (fst (TimeStampedModel_BeforeInsert now m))) \<and>
   (\<not> IsZero (CreatedAt m) \<longrightarrow>
      CreatedAt (fst (TimeStampedModel_BeforeInsert now m)) = CreatedAt m) \<and>
   (IsZero (CreatedAt m) \<and> \<not> IsZero now \<longrightarrow>
      CreatedAt (fst (TimeStampedModel_BeforeInsert later
                        (fst (TimeStampedModel_BeforeInsert now m)))) = now \<and>
      UpdatedAt (fst (TimeStampedModel_BeforeInsert later
                        (fst (TimeStampedModel_BeforeInsert now m)))) = later)"
  by (simp add: TimeStampedModel_BeforeInsert_def Let_def)

theorem TimeStampedModel_BeforeInsert_stamps_witness:
  "IsZero (CreatedAt \<lparr>CreatedAt = Time 0 0, UpdatedAt = Time 0 0\<rparr>) \<and>
   \<not> IsZero (Time 63000000000 0) \<and>
   fst (TimeStampedModel_BeforeInsert (Time 63000000000 0)
          \<lparr>CreatedAt = Time 0 0, UpdatedAt = Time 0 0\<rparr>)
     = \<lparr>CreatedAt = Time 63000000000 0, UpdatedAt = Time 63000000000 0\<rparr> \<and>
   fst (TimeStampedModel_BeforeInsert (Time 63000000500 7)
          (fst (TimeStampedModel_BeforeInsert (Time 63000000000 0)
                  \<lparr>CreatedAt = Time 0 0, UpdatedAt = Time 0 0\<rparr>)))
     = \<lparr>CreatedAt = Time 63000000000 0, UpdatedAt = Time 63000000500 7\<rparr>"
  using TimeStampedModel_BeforeInsert_stamps [of "Time 63000000000 0"
      "\<lparr>CreatedAt = Time 0 0, UpdatedAt = Time 0 0\<rparr>" "Time 63000000500 7"]
  by (simp add: IsZero_def TimeStampedModel_BeforeInsert_def)

subsection \<open>Reading a block: general facts\<close>

lemma blockFile_diagnostics [simp]:
  "blockFile L (d\<lparr>BadBlocks := bb, BadRecords := br\<rparr>) b = blockFile L d b"
  by (simp add: blockFile_def)

lemma block_decrypt_diagnostics [simp]:
  "block_decrypt L (d\<lparr>BadBlocks := bb, BadRecords := br\<rparr>) s = block_decrypt L d s"
  by (simp add: block_decrypt_def)

lemma readBlock_loop_diagnostics [simp]:
  "readBlock_loop L (d\<lparr>BadBlocks := bb, BadRecords := br\<rparr>) m ks r res
     = readBlock_loop L d m ks r res"
  by (induction ks arbitrary: r res)
     (simp_all add: Let_def split: sum.splits prod.splits option.splits)

lemma readBlock_diagnostics [simp]:
  "readBlock L w (d\<lparr>BadBlocks := bb, BadRecords := br\<rparr>) b = readBlock L w d b"
  by (simp add: readBlock_def split: sum.splits prod.splits option.splits)

lemma block_records_unfold:
  "block_records L w d b =
     (case readBlock L w d b of
        (w1, Inl p) \<Rightarrow> (w1, d\<lparr>BadBlocks := [], BadRecords := []\<rparr>, Inl p)
      | (w1, Inr (rs, Some (BadBlockError msg file))) \<Rightarrow>
          (w1, d\<lparr>BadBlocks := [file], BadRecords := []\<rparr>, Inr [])
      | (w1, Inr (rs, Some (BadRecordError msg k))) \<Rightarrow>
          (w1, d\<lparr>BadBlocks := [], BadRecords := [k]\<rparr>, Inr [])
      | (w1, Inr (rs, Some _)) \<Rightarrow> (w1, d\<lparr>BadBlocks := [], BadRecords := []\<rparr>, Inr [])
      | (w1, Inr (rs, None)) \<Rightarrow>
          (w1, d\<lparr>BadBlocks := [], BadRecords := []\<rparr>,
           Inr (map (\<lambda>rec. \<lparr>key = [], data = [], Content = rec\<rparr>) rs)))"
  by (simp add: block_records_def Let_def
      split: prod.splits sum.splits option.splits error.splits)

lemma block_records_forgets:
  "block_records L w (d\<lparr>BadBlocks := bb, BadRecords := br\<rparr>) b = block_records L w d b"
  by (simp add: block_records_unfold
      split: prod.splits sum.splits option.splits error.splits)

lemma block_records_dataset:
  "\<exists>bb br. fst (snd (block_records L w d b)) = d\<lparr>BadBlocks := bb, BadRecords := br\<rparr>"
  by (simp add: block_records_unfold
      split: prod.splits sum.splits option.splits error.splits) blast

lemma readBlock_reads:
  "fst (readBlock L w d b) = w\<lparr>reads := reads w @ [blockFile L d b]\<rparr>"
  by (simp add: readBlock_def ReadFile_def split: prod.splits sum.splits option.splits)

lemma block_records_reads:
  "fst (block_records L w d b) = w\<lparr>reads := reads w @ [blockFile L d b]\<rparr>"
  using readBlock_reads [of L w d b]
  by (auto simp add: block_records_unfold
      split: prod.splits sum.splits option.splits error.splits)

lemma readBlock_bad_block:
  assumes "files w (blockFile L d b) = Some bytes"
    and "snd (json_Unmarshal_map L bytes None) = Some e"
  shows "readBlock L w d b =
     (w\<lparr>reads := reads w @ [blockFile L d b]\<rparr>,
      Inr ([], Some (BadBlockError (e @ '' - '' @ blockFile L d b) (blockFile L d b))))"
  using assms
  by (auto simp add: readBlock_def ReadFile_def split: prod.splits option.splits)

lemma readBlock_good_file:
  assumes "files w (blockFile L d b) = Some bytes"
    and "json_Unmarshal_map L bytes None = (dataBlock, None)"
  shows "readBlock L w d b =
     (w\<lparr>reads := reads w @ [blockFile L d b]\<rparr>,
      readBlock_loop L d dataBlock (orderMapKeys dataBlock) None [])"
  using assms by (simp add: readBlock_def ReadFile_def)

text \<open>The error of \<^verbatim>\<open>json.Unmarshal\<close> does not depend on what the map variable held.\<close>

lemma json_Unmarshal_map_error:
  "snd (json_Unmarshal_map L txt m) = snd (json_Unmarshal_map L txt None)"
proof (cases "json_parse L txt")
  case (Inl e)
  then show ?thesis by (simp add: json_Unmarshal_map_def)
next
  case (Inr v)
  then show ?thesis
    by (cases v) (simp_all add: json_Unmarshal_map_def)
qed

text \<open>
  The loop over keys whose values are all strings: it stops at the first bad entry,
  with the formatted texts of the entries before it, or formats every entry.
\<close>

lemma readBlock_loop_strings:
  assumes "list_all (\<lambda>k. case assert_string (map_index m k) of Inl p \<Rightarrow> False | Inr s \<Rightarrow> True) ks"
  shows "readBlock_loop L d m ks r res =
     (case find (bad_entry L d m) ks of
        None \<Rightarrow> Inr (res @ map (formatted_at L d m) ks, None)
      | Some k \<Rightarrow>
          Inr (res @ map (formatted_at L d m) (takeWhile (\<lambda>k. \<not> bad_entry L d m k) ks),
               Some (BadRecordError (entry_message L d m k @ '' - '' @ k) k)))"
  using assms
proof (induction ks arbitrary: r res)
  case Nil
  then show ?case by simp
next
  case (Cons k ks)
  from Cons.prems obtain s where s: "assert_string (map_index m k) = Inr s"
    by (auto split: sum.splits)
  from Cons.prems
  have rest: "list_all (\<lambda>k. case assert_string (map_index m k) of Inl p \<Rightarrow> False | Inr s \<Rightarrow> True) ks"
    by simp
  obtain r1 e1 where u: "json_Unmarshal_map L (block_decrypt L d s) r = (r1, e1)"
    by (cases "json_Unmarshal_map L (block_decrypt L d s) r")
  then have e1: "snd (json_Unmarshal_map L (block_decrypt L d s) None) = e1"
    using json_Unmarshal_map_error [of L "block_decrypt L d s" r] by simp
  show ?case
  proof (cases e1)
    case (Some e)
    with s u e1 show ?thesis
      by (simp add: bad_entry_def entry_error_def entry_message_def Let_def)
  next
    case None
    show ?thesis
    proof (cases "json_Indent L (block_decrypt L d s)")
      case (Inl e)
      with None s u e1 show ?thesis
        by (simp add: bad_entry_def entry_error_def entry_message_def Let_def)
    next
      case (Inr buf)
      with None s u e1 have good: "\<not> bad_entry L d m k"
        by (simp add: bad_entry_def entry_error_def Let_def)
      have fmt: "formatted_at L d m k = buf"
        using s Inr by (simp add: formatted_at_def entry_formatted_def)
      have step: "readBlock_loop L d m (k # ks) r res = readBlock_loop L d m ks r1 (res @ [buf])"
        using s u None Inr by (simp add: Let_def)
      show ?thesis
        unfolding step Cons.IH [OF rest] using good fmt
        by (simp split: option.splits)
    qed
  qed
qed

text \<open>\<^verbatim>\<open>orderMapKeys\<close> returns each key once, in ascending order.\<close>

lemma orderMapKeys_props:
  "sorted (orderMapKeys m) \<and> distinct (orderMapKeys m) \<and>
   set (orderMapKeys m) = (case m of None \<Rightarrow> {} | Some f \<Rightarrow> fset (fmdom f))"
  by (cases m) (simp_all add: orderMapKeys_def sorted_list_of_fset.rep_eq)

lemma orderMapKeys_of_list:
  assumes "fmdom f = fset_of_list ks"
  shows "orderMapKeys (Some f) = sort (remdups ks)"
proof -
  have "sorted_list_of_set (set ks) = sort (remdups ks)"
    by (rule sorted_list_of_set_sort_remdups)
  then show ?thesis
    using assms by (simp add: orderMapKeys_def sorted_list_of_fset.rep_eq fset_of_list.rep_eq)
qed

lemma find_sorted_least:
  assumes "sorted ks" and "find P ks = Some k" and "k' \<in> set ks" and "P k'"
  shows "k \<le> k'"
  using assms
  by (induction ks) (auto split: if_splits)

lemma find_exists:
  assumes "k' \<in> set ks" and "P k'"
  shows "\<exists>k. find P ks = Some k"
  using assms by (cases "find P ks") (auto simp: find_None_iff)

subsection \<open>The example dataset, evaluated\<close>

lemma parse_empty: \<open>json_parse example_lib ''{}'' = Inr (JObject [])\<close>
  by (simp add: example_lib_def example_parse_def example_documents_def)

lemma parse_numbers: \<open>json_parse example_lib ''{"a":1}'' = Inr (JObject [(''a'', JNumber 1)])\<close>
  by (simp add: example_lib_def example_parse_def example_documents_def)

lemma parse_mixed:
  \<open>json_parse example_lib ''{"a":"enc","b":"not valid json"}'' =
     Inr (JObject [(''a'', JString ''enc''), (''b'', JString ''not valid json'')])\<close>
  by (simp add: example_lib_def example_parse_def example_documents_def)

lemma parse_scalar:
  \<open>json_parse example_lib ''{"a":"5","b":"not valid json"}'' =
     Inr (JObject [(''a'', JString ''5''), (''b'', JString ''not valid json'')])\<close>
  by (simp add: example_lib_def example_parse_def example_documents_def)

lemma parse_five: "json_parse example_lib ''5'' = Inr (JNumber 5)"
  by (simp add: example_lib_def example_parse_def example_documents_def)

lemma parse_broken: \<open>json_parse example_lib ''not valid json'' = Inl ''invalid character''\<close>
  by (simp add: example_lib_def example_parse_def example_documents_def)

lemma blockFile_example:
  "blockFile example_lib example_dataset (example_block n) = ''db/bookings/'' @ n @ ''.json''"
  by (simp add: blockFile_def example_lib_def example_dataset_def example_block_def)

lemma example_block_Records: "Records (example_block n) = []"
  by (simp add: example_block_def newBlock_def)

lemma file_broken: "files example_world ''db/bookings/broken.json'' = Some ''not valid json''"
  by (simp add: example_world_def)

lemma file_empty: "files example_world ''db/bookings/empty.json'' = Some ''{}''"
  by (simp add: example_world_def)

lemma file_numbers: \<open>files example_world ''db/bookings/numbers.json'' = Some ''{"a":1}''\<close>
  by (simp add: example_world_def)

lemma file_mixed:
  \<open>files example_world ''db/bookings/mixed.json'' = Some ''{"a":"enc","b":"not valid json"}''\<close>
  by (simp add: example_world_def)

lemma file_scalar:
  \<open>files example_world ''db/bookings/scalar.json'' = Some ''{"a":"5","b":"not valid json"}''\<close>
  by (simp add: example_world_def)

lemma unmarshal_scalar:
  \<open>json_Unmarshal_map example_lib ''{"a":"5","b":"not valid json"}'' None = (scalar_map, None)\<close>
  by (simp add: json_Unmarshal_map_def parse_scalar object_store_def scalar_map_def)

lemma unmarshal_five:
  "json_Unmarshal_map example_lib ''5'' m =
     (m, Some ''json: cannot unmarshal number into Go value of type map[string]interface {}'')"
  by (simp add: json_Unmarshal_map_def parse_five)

lemma keys_scalar: "orderMapKeys scalar_map = [''a'', ''b'']"
  using orderMapKeys_of_list [of _ "[''b'', ''a'']"] by (simp add: scalar_map_def)

lemma decrypt_five: "block_decrypt example_lib example_dataset ''5'' = ''5''"
  by (simp add: block_decrypt_def example_lib_def)

lemma unmarshal_broken:
  "json_Unmarshal_map example_lib ''not valid json'' m = (m, Some ''invalid character'')"
  by (simp add: json_Unmarshal_map_def parse_broken)

lemma unmarshal_empty:
  "json_Unmarshal_map example_lib ''{}'' None = (Some fmempty, None)"
  by (simp add: json_Unmarshal_map_def parse_empty object_store_def)

lemma unmarshal_numbers:
  \<open>json_Unmarshal_map example_lib ''{"a":1}'' None
     = (Some (fmupd ''a'' (JNumber 1) fmempty), None)\<close>
  by (simp add: json_Unmarshal_map_def parse_numbers object_store_def)

lemma unmarshal_mixed:
  \<open>json_Unmarshal_map example_lib ''{"a":"enc","b":"not valid json"}'' None = (mixed_map, None)\<close>
  by (simp add: json_Unmarshal_map_def parse_mixed object_store_def mixed_map_def)

lemma keys_none: "orderMapKeys (Some fmempty) = []"
  using orderMapKeys_of_list [of fmempty "[]"] by simp

lemma keys_a: "orderMapKeys (Some (fmupd ''a'' v fmempty)) = [''a'']"
  using orderMapKeys_of_list [of "fmupd ''a'' v fmempty" "[''a'']"] by simp

lemma keys_mixed: "orderMapKeys mixed_map = [''a'', ''b'']"
  using orderMapKeys_of_list [of _ "[''b'', ''a'']"] by (simp add: mixed_map_def)

lemma decrypt_enc: "block_decrypt example_lib example_dataset ''enc'' = ''{}''"
  by (simp add: block_decrypt_def example_lib_def)

lemma decrypt_raw:
  "block_decrypt example_lib example_dataset ''not valid json'' = ''not valid json''"
  by (simp add: block_decrypt_def example_lib_def)

lemma indent_any: "json_Indent example_lib s = Inr s"
  by (simp add: example_lib_def)

lemma bad_b: "bad_entry example_lib example_dataset mixed_map ''b''"
  by (simp add: bad_entry_def mixed_map_def map_index_def entry_error_def decrypt_raw
      unmarshal_broken)

lemma good_a: "\<not> bad_entry example_lib example_dataset mixed_map ''a''"
  by (simp add: bad_entry_def mixed_map_def map_index_def entry_error_def decrypt_enc
      unmarshal_empty indent_any)

lemma strings_mixed: "all_strings mixed_map"
  by (simp add: all_strings_def keys_mixed) (simp add: mixed_map_def map_index_def)

lemma records_broken:
  assumes "files w = files example_world"
  shows "block_records example_lib w example_dataset (example_block ''broken'') =
     (w\<lparr>reads := reads w @ [''db/bookings/broken.json'']\<rparr>,
      example_dataset\<lparr>BadBlocks := [''db/bookings/broken.json''], BadRecords := []\<rparr>, Inr [])"
  using assms
  by (simp add: block_records_unfold readBlock_def ReadFile_def blockFile_example file_broken
      unmarshal_broken)

lemma records_empty:
  assumes "files w = files example_world"
  shows "block_records example_lib w example_dataset (example_block ''empty'') =
     (w\<lparr>reads := reads w @ [''db/bookings/empty.json'']\<rparr>,
      example_dataset\<lparr>BadBlocks := [], BadRecords := []\<rparr>, Inr [])"
  using assms
  by (simp add: block_records_unfold readBlock_def ReadFile_def blockFile_example file_empty
      unmarshal_empty keys_none)

lemma records_mixed:
  assumes "files w = files example_world"
  shows "block_records example_lib w example_dataset (example_block ''mixed'') =
     (w\<lparr>reads := reads w @ [''db/bookings/mixed.json'']\<rparr>,
      example_dataset\<lparr>BadBlocks := [], BadRecords := [''b'']\<rparr>, Inr [])"
  using assms
  by (simp add: block_records_unfold readBlock_def ReadFile_def blockFile_example file_mixed
      unmarshal_mixed keys_mixed)
     (simp add: mixed_map_def map_index_def decrypt_enc decrypt_raw unmarshal_empty
      unmarshal_broken indent_any)

subsection \<open>Bad blocks\<close>

text \<open>
  The decode failures that the read quarantines. For every block whose file can be
  read and whose bytes \<^verbatim>\<open>json.Unmarshal\<close> fails to decode into the block map (a syntax
  error, or a document that is neither an object nor \<^verbatim>\<open>null\<close>): the read leaves the
  file's path as the only entry of \<^verbatim>\<open>BadBlocks\<close>, leaves \<^verbatim>\<open>BadRecords\<close> empty and returns
  no record, without a panic; hydrating a block that holds no record does the same
  and leaves the block without records.
\<close>

lemma bad_block_quarantined:
  assumes "files w (blockFile L d b) = Some bytes"
    and "snd (json_Unmarshal_map L bytes None) = Some e"
  shows "block_records L w d b =
     (w\<lparr>reads := reads w @ [blockFile L d b]\<rparr>,
      d\<lparr>BadBlocks := [blockFile L d b], BadRecords := []\<rparr>, Inr []) \<and>
     (Records b = [] \<longrightarrow>
        loadRecords L w d b =
          (w\<lparr>reads := reads w @ [blockFile L d b]\<rparr>,
           d\<lparr>BadBlocks := [blockFile L d b], BadRecords := []\<rparr>, Inr (b\<lparr>Records := []\<rparr>)))"
  using readBlock_bad_block [OF assms]
  by (simp add: block_records_unfold loadRecords_def)

lemma bad_block_quarantined_example:
  "files example_world (blockFile example_lib example_dataset (example_block ''broken''))
     = Some ''not valid json'' \<and>
   snd (json_Unmarshal_map example_lib ''not valid json'' None) = Some ''invalid character'' \<and>
   block_records example_lib example_world example_dataset (example_block ''broken'') =
     (example_world\<lparr>reads := [''db/bookings/broken.json'']\<rparr>,
      example_dataset\<lparr>BadBlocks := [''db/bookings/broken.json''], BadRecords := []\<rparr>, Inr [])"
  using bad_block_quarantined [of example_world example_lib example_dataset
      "example_block ''broken''" "''not valid json''" "''invalid character''"]
  by (simp add: blockFile_example file_broken unmarshal_broken example_world_def)

text \<open>
  C4 on a block whose file holds \<^verbatim>\<open>{"a":1}\<close>, an object with a value that is not a
  string, so bytes that are not a key-to-string mapping. The claim has the file's path
  added to \<^verbatim>\<open>BadBlocks\<close> and an empty record list, with no other failure. The code
  decodes the bytes into the block map without error, records no bad block, and the
  unchecked type assertion \<^verbatim>\<open>dataBlock[k].(string)\<close> panics on the number. The block's
  own \<^verbatim>\<open>UnmarshalJSON\<close> decodes the same file format into a map of strings and returns
  an error on such bytes.
\<close>

theorem bad_block_value_not_string_panics:
  \<open>files example_world (blockFile example_lib example_dataset (example_block ''numbers''))
     = Some ''{"a":1}'' \<and>
   \<not> all_strings (fst (json_Unmarshal_map example_lib ''{"a":1}'' None)) \<and>
   block_records example_lib example_world example_dataset (example_block ''numbers'') =
     (example_world\<lparr>reads := [''db/bookings/numbers.json'']\<rparr>,
      example_dataset\<lparr>BadBlocks := [], BadRecords := []\<rparr>,
      Inl (InterfaceConversion (Some (JNumber 1)))) \<and>
   blockFile example_lib example_dataset (example_block ''numbers'')
     \<notin> set (BadBlocks (fst (snd
         (block_records example_lib example_world example_dataset (example_block ''numbers'')))))\<close>
proof -
  have "block_records example_lib example_world example_dataset (example_block ''numbers'') =
     (example_world\<lparr>reads := [''db/bookings/numbers.json'']\<rparr>,
      example_dataset\<lparr>BadBlocks := [], BadRecords := []\<rparr>,
      Inl (InterfaceConversion (Some (JNumber 1))))"
    by (simp add: block_records_unfold readBlock_def ReadFile_def blockFile_example file_numbers
        unmarshal_numbers keys_a map_index_def example_world_def)
  then show ?thesis
    by (simp add: blockFile_example file_numbers unmarshal_numbers all_strings_def keys_a
        map_index_def)
qed

subsection \<open>Bad records\<close>

text \<open>
  C5, as stated, fails on a file with an entry that is JSON but not an object. In
  \<^verbatim>\<open>{"a":"5","b":"not valid json"}\<close> the text of \<open>a\<close> parses as JSON and re-indents, and
  the first entry that does not is \<open>b\<close>; but \<^verbatim>\<open>json.Unmarshal\<close> of a number into the
  record map is an error, so the loop stops at \<open>a\<close> and the key recorded is \<open>a\<close>.
\<close>

theorem bad_record_counterexample:
  \<open>files example_world (blockFile example_lib example_dataset (example_block ''scalar''))
     = Some ''{"a":"5","b":"not valid json"}'' \<and>
   json_Unmarshal_map example_lib ''{"a":"5","b":"not valid json"}'' None = (scalar_map, None) \<and>
   all_strings scalar_map \<and>
   orderMapKeys scalar_map = [''a'', ''b''] \<and>
   \<not> fails_as_json example_lib example_dataset ''5'' \<and>
   fails_as_json example_lib example_dataset ''not valid json'' \<and>
   block_records example_lib example_world example_dataset (example_block ''scalar'') =
     (example_world\<lparr>reads := [''db/bookings/scalar.json'']\<rparr>,
      example_dataset\<lparr>BadBlocks := [], BadRecords := [''a'']\<rparr>, Inr [])\<close>
proof -
  have "block_records example_lib example_world example_dataset (example_block ''scalar'') =
     (example_world\<lparr>reads := [''db/bookings/scalar.json'']\<rparr>,
      example_dataset\<lparr>BadBlocks := [], BadRecords := [''a'']\<rparr>, Inr [])"
    by (simp add: block_records_unfold readBlock_def ReadFile_def blockFile_example file_scalar
        unmarshal_scalar keys_scalar)
       (simp add: scalar_map_def map_index_def decrypt_five unmarshal_five example_world_def)
  moreover have "all_strings scalar_map"
    by (simp add: all_strings_def keys_scalar) (simp add: scalar_map_def map_index_def)
  moreover have "\<not> fails_as_json example_lib example_dataset ''5''"
    by (simp add: fails_as_json_def decrypt_five parse_five indent_any)
  moreover have "fails_as_json example_lib example_dataset ''not valid json''"
    by (simp add: fails_as_json_def decrypt_raw parse_broken)
  ultimately show ?thesis
    by (simp add: blockFile_example file_scalar unmarshal_scalar keys_scalar)
qed

text \<open>
  C5, amended. Take a block whose file can be read and decodes into a map of strings,
  and a key \<open>k'\<close> of it whose entry, once decrypted, fails \<^verbatim>\<open>json.Unmarshal\<close> into the
  record map (it is not JSON, or is JSON but neither an object nor \<^verbatim>\<open>null\<close>) or fails
  \<^verbatim>\<open>json.Indent\<close>. Then the sorted keys have a first such entry \<open>k\<close>, no later than \<open>k'\<close>;
  \<^verbatim>\<open>readBlock\<close> returns the error for \<open>k\<close> with the formatted texts of the entries
  before \<open>k\<close> only; and the read leaves \<open>k\<close> as the only entry of \<^verbatim>\<open>BadRecords\<close>, leaves
  \<^verbatim>\<open>BadBlocks\<close> empty and returns no record.
\<close>

theorem bad_record_stops_read:
  assumes "files w (blockFile L d b) = Some bytes"
    and "json_Unmarshal_map L bytes None = (dataBlock, None)"
    and "all_strings dataBlock"
    and "k' \<in> set (orderMapKeys dataBlock)"
    and "bad_entry L d dataBlock k'"
  shows "\<exists>k. find (bad_entry L d dataBlock) (orderMapKeys dataBlock) = Some k \<and>
           k \<le> k' \<and> bad_entry L d dataBlock k \<and>
           readBlock L w d b =
             (w\<lparr>reads := reads w @ [blockFile L d b]\<rparr>,
              Inr (map (formatted_at L d dataBlock)
                     (takeWhile (\<lambda>k. \<not> bad_entry L d dataBlock k) (orderMapKeys dataBlock)),
                   Some (BadRecordError (entry_message L d dataBlock k @ '' - '' @ k) k))) \<and>
           block_records L w d b =
             (w\<lparr>reads := reads w @ [blockFile L d b]\<rparr>,
              d\<lparr>BadBlocks := [], BadRecords := [k]\<rparr>, Inr [])"
proof -
  obtain k where k: "find (bad_entry L d dataBlock) (orderMapKeys dataBlock) = Some k"
    using find_exists [OF assms(4), of "bad_entry L d dataBlock", OF assms(5)] ..
  have le: "k \<le> k'"
    using find_sorted_least [OF _ k assms(4,5)] orderMapKeys_props [of dataBlock] by simp
  have bad: "bad_entry L d dataBlock k"
    using k unfolding find_Some_iff by (elim exE conjE) simp
  have loop: "readBlock_loop L d dataBlock (orderMapKeys dataBlock) None [] =
      Inr (map (formatted_at L d dataBlock)
             (takeWhile (\<lambda>k. \<not> bad_entry L d dataBlock k) (orderMapKeys dataBlock)),
           Some (BadRecordError (entry_message L d dataBlock k @ '' - '' @ k) k))"
    using readBlock_loop_strings [of dataBlock "orderMapKeys dataBlock" L d None "[]"]
      assms(3) k by (simp add: all_strings_def)
  have rb: "readBlock L w d b =
      (w\<lparr>reads := reads w @ [blockFile L d b]\<rparr>,
       Inr (map (formatted_at L d dataBlock)
              (takeWhile (\<lambda>k. \<not> bad_entry L d dataBlock k) (orderMapKeys dataBlock)),
            Some (BadRecordError (entry_message L d dataBlock k @ '' - '' @ k) k)))"
    using readBlock_good_file [OF assms(1,2)] loop by simp
  have br: "block_records L w d b =
      (w\<lparr>reads := reads w @ [blockFile L d b]\<rparr>,
       d\<lparr>BadBlocks := [], BadRecords := [k]\<rparr>, Inr [])"
    using rb by (simp add: block_records_unfold)
  show ?thesis
    by (rule exI [of _ k]) (intro conjI k le bad rb br)
qed

text \<open>
  The file \<^verbatim>\<open>{"a":"enc","b":"not valid json"}\<close>: entry \<open>a\<close> decrypts to valid JSON, entry
  \<open>b\<close> is passed through as it is and does not parse.
\<close>

theorem bad_record_stops_read_witness:
  "block_records example_lib example_world example_dataset (example_block ''mixed'') =
     (example_world\<lparr>reads := [''db/bookings/mixed.json'']\<rparr>,
      example_dataset\<lparr>BadBlocks := [], BadRecords := [''b'']\<rparr>, Inr []) \<and>
   snd (readBlock example_lib example_world example_dataset (example_block ''mixed'')) =
     Inr ([''{}''], Some (BadRecordError ''invalid character - b'' ''b''))"
proof -
  have f: \<open>files example_world (blockFile example_lib example_dataset (example_block ''mixed''))
      = Some ''{"a":"enc","b":"not valid json"}''\<close>
    by (simp add: blockFile_example file_mixed)
  have mem: "''b'' \<in> set (orderMapKeys mixed_map)"
    by (simp add: keys_mixed)
  from bad_record_stops_read [OF f unmarshal_mixed strings_mixed mem bad_b]
  obtain k where
    k: "find (bad_entry example_lib example_dataset mixed_map) (orderMapKeys mixed_map) = Some k"
    and rb: "readBlock example_lib example_world example_dataset (example_block ''mixed'') =
             (example_world\<lparr>reads := reads example_world @
                 [blockFile example_lib example_dataset (example_block ''mixed'')]\<rparr>,
              Inr (map (formatted_at example_lib example_dataset mixed_map)
                     (takeWhile (\<lambda>k. \<not> bad_entry example_lib example_dataset mixed_map k)
                        (orderMapKeys mixed_map)),
                   Some (BadRecordError
                     (entry_message example_lib example_dataset mixed_map k @ '' - '' @ k) k)))"
    and br: "block_records example_lib example_world example_dataset (example_block ''mixed'') =
             (example_world\<lparr>reads := reads example_world @
                 [blockFile example_lib example_dataset (example_block ''mixed'')]\<rparr>,
              example_dataset\<lparr>BadBlocks := [], BadRecords := [k]\<rparr>, Inr [])"
    by blast
  have "find (bad_entry example_lib example_dataset mixed_map) (orderMapKeys mixed_map)
      = Some ''b''"
    by (simp add: keys_mixed bad_b good_a)
  with k have kb: "k = ''b''" by simp
  have msg: "entry_message example_lib example_dataset mixed_map ''b'' = ''invalid character''"
    by (simp add: entry_message_def mixed_map_def map_index_def entry_error_def decrypt_raw
        unmarshal_broken)
  have fa: "formatted_at example_lib example_dataset mixed_map ''a'' = ''{}''"
    by (simp add: formatted_at_def mixed_map_def map_index_def entry_formatted_def decrypt_enc
        indent_any)
  show ?thesis
    using br rb kb msg fa
    by (simp add: blockFile_example example_world_def keys_mixed bad_b good_a)
qed

subsection \<open>The diagnostics of the dataset\<close>

text \<open>
  C6. A read does not depend on what \<^verbatim>\<open>BadBlocks\<close> and \<^verbatim>\<open>BadRecords\<close> held before it;
  after two reads in a row the dataset is as after the second read alone; and after a
  read the two lists hold the one entry of that read's error (the file of a bad block,
  or the key of a bad record), or nothing.
\<close>

theorem diagnostics_reflect_last_read:
  "block_records L w (d\<lparr>BadBlocks := bb, BadRecords := br\<rparr>) b = block_records L w d b \<and>
   fst (snd (block_records L w' (fst (snd (block_records L w d b))) b'))
     = fst (snd (block_records L w' d b')) \<and>
   (case snd (readBlock L w d b) of
      Inr (rs, Some (BadBlockError msg file)) \<Rightarrow>
        fst (snd (block_records L w d b)) = d\<lparr>BadBlocks := [file], BadRecords := []\<rparr>
    | Inr (rs, Some (BadRecordError msg k)) \<Rightarrow>
        fst (snd (block_records L w d b)) = d\<lparr>BadBlocks := [], BadRecords := [k]\<rparr>
    | _ \<Rightarrow> fst (snd (block_records L w d b)) = d\<lparr>BadBlocks := [], BadRecords := []\<rparr>)"
proof -
  obtain bb1 br1
    where "fst (snd (block_records L w d b)) = d\<lparr>BadBlocks := bb1, BadRecords := br1\<rparr>"
    using block_records_dataset by blast
  then have "fst (snd (block_records L w' (fst (snd (block_records L w d b))) b'))
     = fst (snd (block_records L w' d b'))"
    by (simp add: block_records_forgets)
  moreover have "(case snd (readBlock L w d b) of
      Inr (rs, Some (BadBlockError msg file)) \<Rightarrow>
        fst (snd (block_records L w d b)) = d\<lparr>BadBlocks := [file], BadRecords := []\<rparr>
    | Inr (rs, Some (BadRecordError msg k)) \<Rightarrow>
        fst (snd (block_records L w d b)) = d\<lparr>BadBlocks := [], BadRecords := [k]\<rparr>
    | _ \<Rightarrow> fst (snd (block_records L w d b)) = d\<lparr>BadBlocks := [], BadRecords := []\<rparr>)"
    by (simp add: block_records_unfold split: prod.splits sum.splits option.splits error.splits)
  ultimately show ?thesis by (simp add: block_records_forgets)
qed

text \<open>
  The example dataset starts with stale entries in both lists. Reading the broken
  block leaves its path alone in \<^verbatim>\<open>BadBlocks\<close>; reading the mixed block next leaves
  \<^verbatim>\<open>BadBlocks\<close> empty and the key \<open>b\<close> alone in \<^verbatim>\<open>BadRecords\<close>.
\<close>

theorem diagnostics_reflect_last_read_witness:
  "fst (snd (block_records example_lib example_world example_dataset (example_block ''broken'')))
     = example_dataset\<lparr>BadBlocks := [''db/bookings/broken.json''], BadRecords := []\<rparr> \<and>
   fst (snd (block_records example_lib
       (fst (block_records example_lib example_world example_dataset (example_block ''broken'')))
       (fst (snd (block_records example_lib example_world example_dataset
                    (example_block ''broken''))))
       (example_block ''mixed'')))
     = example_dataset\<lparr>BadBlocks := [], BadRecords := [''b'']\<rparr>"
  using diagnostics_reflect_last_read [where L = example_lib and w = example_world
      and d = example_dataset and bb = "[]" and br = "[]" and b = "example_block ''broken''"
      and w' = "fst (block_records example_lib example_world example_dataset
                       (example_block ''broken''))"
      and b' = "example_block ''mixed''"]
  by (simp add: records_broken records_mixed)

subsection \<open>Loading once\<close>

text \<open>A block that holds records is not read again: the calls change nothing.\<close>

lemma loadRecords_cached:
  "Records b \<noteq> [] \<Longrightarrow> loadRecords L w d b = (w, d, Inr b)"
  by (simp add: loadRecords_def)

lemma RecordCount_cached:
  "Records b \<noteq> [] \<Longrightarrow> RecordCount L w d b = (w, d, Inr (b, length (Records b)))"
  by (simp add: RecordCount_def loadRecords_cached)

text \<open>A block that holds no record is read by every call, whatever was read before.\<close>

lemma loadRecords_empty_reads:
  "Records b = [] \<Longrightarrow>
     fst (loadRecords L w d b) = w\<lparr>reads := reads w @ [blockFile L d b]\<rparr>"
  using block_records_reads [of L w d b]
  by (auto simp add: loadRecords_def split: prod.splits sum.splits)

text \<open>
  C3 on a block whose file holds the empty object \<^verbatim>\<open>{}\<close>: the first \<^verbatim>\<open>RecordCount\<close>
  reads the file and returns 0; the second one, on the state the first one left, reads
  the file again.
\<close>

theorem RecordCount_rereads_empty_block:
  "RecordCount example_lib example_world example_dataset (example_block ''empty'') =
     (example_world\<lparr>reads := [''db/bookings/empty.json'']\<rparr>,
      example_dataset\<lparr>BadBlocks := [], BadRecords := []\<rparr>,
      Inr (example_block ''empty'', 0)) \<and>
   RecordCount example_lib (example_world\<lparr>reads := [''db/bookings/empty.json'']\<rparr>)
      (example_dataset\<lparr>BadBlocks := [], BadRecords := []\<rparr>) (example_block ''empty'') =
     (example_world\<lparr>reads := [''db/bookings/empty.json'', ''db/bookings/empty.json'']\<rparr>,
      example_dataset\<lparr>BadBlocks := [], BadRecords := []\<rparr>,
      Inr (example_block ''empty'', 0))"
  by (simp add: RecordCount_def loadRecords_def example_block_Records block_records_forgets
      records_empty) (simp add: example_block_def newBlock_def example_world_def)

subsection \<open>The table: headers, rows and cells\<close>

lemma fold_Version:
  "equalFold ''Version'' ''Indexes'' = False" "equalFold ''Version'' ''Data'' = False"
  by code_simp+

lemma fold_Indexes: "equalFold ''Indexes'' ''Indexes'' = True"
  by code_simp

lemma fold_Data: "equalFold ''Data'' ''Indexes'' = False" "equalFold ''Data'' ''Data'' = True"
  by code_simp+

lemma fmt_small:
  "fmt_float 1 = ''1''" "fmt_float 2 = ''2''" "fmt_float 3 = ''3''"
  "fmt_float 4 = ''4''" "fmt_float 5 = ''5''"
  by code_simp+

lemma keys_xy: "orderMapKeys (Some (fmupd ''y'' a (fmupd ''x'' b fmempty))) = [''x'', ''y'']"
  using orderMapKeys_of_list [of "fmupd ''y'' a (fmupd ''x'' b fmempty)" "[''y'', ''x'']"]
  by simp

lemma cell_absent: "map_index m k = None \<Longrightarrow> cell m k = ''<nil>''"
  by (simp add: cell_def Sprintf_v_def)

lemma cell_take: "cell m k = take 40 (Sprintf_v (map_index m k))"
  by (simp add: cell_def Let_def)

lemma cell_length: "length (cell m k) \<le> 40"
  by (simp add: cell_take)

text \<open>No round of the loop adds a cell of more than 40 bytes.\<close>

lemma table_loop_cells:
  assumes "\<forall>row \<in> set (Rows t). \<forall>c \<in> set row. length c \<le> 40"
  shows "\<forall>row \<in> set (Rows (table_loop L rs i raw jm t)). \<forall>c \<in> set row. length c \<le> 40"
  using assms
proof (induction rs arbitrary: i raw jm t)
  case Nil
  then show ?case by simp
next
  case (Cons r rs)
  show ?case
    unfolding table_loop.simps Let_def
    by (rule Cons.IH) (use Cons.prems in \<open>auto simp: cell_length\<close>)
qed

text \<open>After the first round the headers stay as they are.\<close>

lemma table_loop_headers:
  "0 < i \<Longrightarrow> Headers (table_loop L rs i raw jm t) = Headers t"
  by (induction rs arbitrary: i raw jm t) (simp_all add: Let_def)

text \<open>
  The three records of the claim, each an envelope with any version and any indexes:
  the rows of the second and third record carry over what the map variables held.
\<close>

lemma table_loop_three:
  assumes "json_parse L (Content r1) = Inr (JObject [(''Version'', v1), (''Indexes'', i1),
              (''Data'', JObject [(''x'', JNumber 1), (''y'', JNumber 2)])])"
    and "json_parse L (Content r2) = Inr (JObject [(''Version'', v2), (''Indexes'', i2),
              (''Data'', JObject [(''x'', JNumber 3)])])"
    and "json_parse L (Content r3) = Inr (JObject [(''Version'', v3), (''Indexes'', i3),
              (''Data'', JObject [(''y'', JNumber 4), (''x'', JNumber 5)])])"
  shows "table_loop L [r1, r2, r3] 0
           \<lparr>rawV2_Indexes = None, rawV2_Data = None\<rparr> None \<lparr>Headers = [], Rows = []\<rparr>
         = \<lparr>Headers = [''x'', ''y''], Rows = [[''1'', ''2''], [''3'', ''2''], [''5'', ''4'']]\<rparr>"
  using assms
  apply (simp add: json_Unmarshal_rawV2_def fold_Version fold_Indexes fold_Data Let_def
      remarshal_def object_store_def)
  apply (simp add: keys_xy cell_def Sprintf_v_def map_index_def fmt_small)
  done

lemma block_table_loaded:
  "Records b \<noteq> [] \<Longrightarrow>
     block_table L w d b =
       (w, d, Inr (b, table_loop L (Records b) 0 \<lparr>rawV2_Indexes = None, rawV2_Data = None\<rparr>
                        None \<lparr>Headers = [], Rows = []\<rparr>))"
  by (simp add: block_table_def loadRecords_def)

lemma parse_table_block:
  \<open>json_parse example_lib ''{"Version":"v2","Indexes":{},"Data":{"x":1,"y":2}}'' =
     Inr (JObject [(''Version'', JString ''v2''), (''Indexes'', JObject []),
                   (''Data'', JObject [(''x'', JNumber 1), (''y'', JNumber 2)])])\<close>
  \<open>json_parse example_lib ''{"Version":"v2","Indexes":{},"Data":{"x":3}}'' =
     Inr (JObject [(''Version'', JString ''v2''), (''Indexes'', JObject []),
                   (''Data'', JObject [(''x'', JNumber 3)])])\<close>
  \<open>json_parse example_lib ''{"Version":"v2","Indexes":{},"Data":{"y":4,"x":5}}'' =
     Inr (JObject [(''Version'', JString ''v2''), (''Indexes'', JObject []),
                   (''Data'', JObject [(''y'', JNumber 4), (''x'', JNumber 5)])])\<close>
  by (simp_all add: example_lib_def example_parse_def example_documents_def)

lemma table_block_Records:
  \<open>Records table_block =
     [\<lparr>key = [], data = [], Content = ''{"Version":"v2","Indexes":{},"Data":{"x":1,"y":2}}''\<rparr>,
      \<lparr>key = [], data = [], Content = ''{"Version":"v2","Indexes":{},"Data":{"x":3}}''\<rparr>,
      \<lparr>key = [], data = [], Content = ''{"Version":"v2","Indexes":{},"Data":{"y":4,"x":5}}''\<rparr>]\<close>
  by (simp add: table_block_def)

lemma table_example:
  "block_table example_lib example_world example_dataset table_block =
     (example_world, example_dataset,
      Inr (table_block,
           \<lparr>Headers = [''x'', ''y''],
            Rows = [[''1'', ''2''], [''3'', ''2''], [''5'', ''4'']]\<rparr>))"
proof -
  have "table_loop example_lib (Records table_block) 0
          \<lparr>rawV2_Indexes = None, rawV2_Data = None\<rparr> None \<lparr>Headers = [], Rows = []\<rparr>
        = \<lparr>Headers = [''x'', ''y''], Rows = [[''1'', ''2''], [''3'', ''2''], [''5'', ''4'']]\<rparr>"
    unfolding table_block_Records
    by (rule table_loop_three) (simp_all add: parse_table_block)
  moreover have "Records table_block \<noteq> []"
    by (simp add: table_block_Records)
  ultimately show ?thesis
    by (simp add: block_table_loaded)
qed

text \<open>
  C9 on its own example, a block hydrated with three records whose \<^verbatim>\<open>Data\<close> objects
  are \<^verbatim>\<open>{"x":1,"y":2}\<close>, \<^verbatim>\<open>{"x":3}\<close> and \<^verbatim>\<open>{"y":4,"x":5}\<close>. The claim has the header row
  \<open>x, y\<close> and the second row \<open>3\<close> and the empty string, the second record having no
  \<open>y\<close>. The code gives the header row \<open>x, y\<close> and the second row \<open>3, 2\<close>: \<^verbatim>\<open>rawV2\<close> and
  \<^verbatim>\<open>jsonMap\<close> are declared before the loop, \<^verbatim>\<open>json.Unmarshal\<close> reuses a map that is not
  \<^verbatim>\<open>nil\<close> and keeps its entries, and so the cell of \<open>y\<close> still shows the first record's
  value.
\<close>

theorem table_second_row_stale:
  "snd (snd (block_table example_lib example_world example_dataset table_block)) =
     Inr (table_block,
          \<lparr>Headers = [''x'', ''y''],
           Rows = [[''1'', ''2''], [''3'', ''2''], [''5'', ''4'']]\<rparr>) \<and>
   Rows (snd (projr (snd (snd
      (block_table example_lib example_world example_dataset table_block))))) ! 1
     \<noteq> [''3'', []] \<and>
   Rows (snd (projr (snd (snd
      (block_table example_lib example_world example_dataset table_block))))) ! 1 ! 1
     = ''2''"
  by (simp add: table_example)

end
